theory Spec2Isabelle
  imports Complex_Main "HOL-Library.Word" "HOL-Library.Multiset"
begin

section \<open>Data model\<close>

text \<open>
  The pipeline is TypeScript. A JavaScript string is a sequence of UTF-16 code units and
  \<^verbatim>\<open>length\<close> counts code units, so a string is a list of 16-bit words. A JavaScript
  \<^verbatim>\<open>number\<close> is modelled by an exact rational: the development covers the finite
  values and leaves IEEE rounding, \<^verbatim>\<open>NaN\<close> and the infinities outside. An optional
  property (\<^verbatim>\<open>jobId?: string\<close>) is an \<open>option\<close>; a string is falsy when it is
  absent or empty.
\<close>

type_synonym jsstring = "16 word list"

definition truthy :: "jsstring option \<Rightarrow> bool" where
  "truthy s = (case s of None \<Rightarrow> False | Some t \<Rightarrow> t \<noteq> [])"

text \<open>
  \<^verbatim>\<open>MultiClipStep\<close> of the type declarations; \<^verbatim>\<open>result?: any\<close> is a type parameter.
  The fields are prefixed because \<open>id\<close> and \<open>status\<close> are used by several interfaces.
\<close>

datatype StepStatus = StepPending | StepProcessing | StepCompleted | StepFailed

record 'r MultiClipStep =
  stepId :: jsstring
  stepName :: jsstring
  stepStatus :: StepStatus
  startTime :: "jsstring option"
  endTime :: "jsstring option"
  result :: "'r option"
  error :: "jsstring option"

text \<open>
  \<^verbatim>\<open>Partial<MultiClipStep>\<close>: every key may be absent (\<open>None\<close>). A key of an optional
  property that is present may still hold \<^verbatim>\<open>undefined\<close> (\<open>Some None\<close>).
\<close>

record 'r PartialStep =
  p_id :: "jsstring option"
  p_name :: "jsstring option"
  p_status :: "StepStatus option"
  p_startTime :: "jsstring option option"
  p_endTime :: "jsstring option option"
  p_result :: "'r option option"
  p_error :: "jsstring option option"

section \<open>Progress steps (multi-clip.ts)\<close>

text \<open>The object spread \<^verbatim>\<open>{ ...step, ...updates }\<close>: a key present in the update wins.\<close>

definition spread :: "'r MultiClipStep \<Rightarrow> 'r PartialStep \<Rightarrow> 'r MultiClipStep" where
  "spread step updates =
     \<lparr> stepId = (case p_id updates of None \<Rightarrow> stepId step | Some v \<Rightarrow> v),
       stepName = (case p_name updates of None \<Rightarrow> stepName step | Some v \<Rightarrow> v),
       stepStatus = (case p_status updates of None \<Rightarrow> stepStatus step | Some v \<Rightarrow> v),
       startTime = (case p_startTime updates of None \<Rightarrow> startTime step | Some v \<Rightarrow> v),
       endTime = (case p_endTime updates of None \<Rightarrow> endTime step | Some v \<Rightarrow> v),
       result = (case p_result updates of None \<Rightarrow> result step | Some v \<Rightarrow> v),
       error = (case p_error updates of None \<Rightarrow> error step | Some v \<Rightarrow> v) \<rparr>"

definition updateStep ::
  "'r MultiClipStep list \<Rightarrow> jsstring \<Rightarrow> 'r PartialStep \<Rightarrow> 'r MultiClipStep list" where
  "updateStep steps sid updates =
     map (\<lambda>step. if stepId step = sid then spread step updates else step) steps"

section \<open>Segmenter (multi-clip.ts)\<close>

text \<open>
  \<^verbatim>\<open>ScriptSection\<close> is \<^verbatim>\<open>{ text, duration }\<close> in the source.
\<close>

record ScriptSection =
  sectionText :: jsstring
  sectionDuration :: rat

text \<open>
  The character class \<^verbatim>\<open>[.!?\<close>U+3002\<^verbatim>\<open>]\<close> of the look-behind, and the class \<^verbatim>\<open>\s\<close>,
  which is also what \<^verbatim>\<open>trim\<close> strips (white space and line terminators).
\<close>

definition isTerminator :: "16 word \<Rightarrow> bool" where
  "isTerminator c = (c = 0x2E \<or> c = 0x21 \<or> c = 0x3F \<or> c = 0x3002)"

definition isSpace :: "16 word \<Rightarrow> bool" where
  "isSpace c = (c = 0x09 \<or> c = 0x0A \<or> c = 0x0B \<or> c = 0x0C \<or> c = 0x0D \<or> c = 0x20 \<or>
     c = 0xA0 \<or> c = 0x1680 \<or> (0x2000 \<le> c \<and> c \<le> 0x200A) \<or> c = 0x2028 \<or> c = 0x2029 \<or>
     c = 0x202F \<or> c = 0x205F \<or> c = 0x3000 \<or> c = 0xFEFF)"

text \<open>
  \<^verbatim>\<open>script.split(/(?<=[.!?\<close>U+3002\<^verbatim>\<open>])\s*/)\<close>, following the split algorithm of the language:
  \<open>cur\<close> is the text between the end \<open>p\<close> of the last separator and the position \<open>q\<close>
  under test, \<open>rest\<close> the text from \<open>q\<close> on, \<open>prev\<close> the code unit before \<open>q\<close>. The
  pattern matches at \<open>q\<close> when the code unit before it is a terminator, and then takes
  all the white space that follows; a match that is empty and sits at \<open>p\<close> is skipped. The
  loop never tests the end of the string, and the remainder is the last piece.
\<close>

function splitLoop :: "16 word option \<Rightarrow> jsstring \<Rightarrow> jsstring \<Rightarrow> jsstring list" where
  "splitLoop prev cur [] = [cur]"
| "splitLoop prev cur (c # rest) =
     (if (case prev of None \<Rightarrow> False | Some t \<Rightarrow> isTerminator t)
      then (let ws = takeWhile isSpace (c # rest) in
            if cur = [] \<and> ws = [] then splitLoop (Some c) (cur @ [c]) rest
            else cur # splitLoop (if ws = [] then prev else Some (last ws)) []
                         (dropWhile isSpace (c # rest)))
      else splitLoop (Some c) (cur @ [c]) rest)"
  by pat_completeness auto
termination
proof (relation "measure (\<lambda>(prev, cur, rest). 2 * length rest + (if cur = [] then 0 else 1))")
  show "wf (measure (\<lambda>(prev, cur, rest). 2 * length rest + (if cur = [] then 0 else 1)))"
    by simp
next
  fix prev :: "16 word option" and cur :: jsstring and c rest ws
  assume "ws = takeWhile isSpace (c # rest)" and "\<not> (cur = [] \<and> ws = [])"
  moreover have "length (dropWhile isSpace (c # rest)) \<le> length (c # rest)"
    by (rule length_dropWhile_le)
  moreover have "isSpace c \<Longrightarrow> length (dropWhile isSpace (c # rest)) \<le> length rest"
    by (simp add: length_dropWhile_le)
  ultimately show
    "((if ws = [] then prev else Some (last ws), [], dropWhile isSpace (c # rest)), prev, cur, c # rest)
      \<in> measure (\<lambda>(prev, cur, rest). 2 * length rest + (if cur = [] then 0 else 1))"
    by (auto split: if_splits)
qed auto

definition split :: "jsstring \<Rightarrow> jsstring list" where
  "split script = splitLoop None [] script"

definition trim :: "jsstring \<Rightarrow> jsstring" where
  "trim s = rev (dropWhile isSpace (rev (dropWhile isSpace s)))"

definition splitIntoSentences :: "jsstring \<Rightarrow> jsstring list" where
  "splitIntoSentences script = filter (\<lambda>s. length s > 0) (map trim (split script))"

text \<open>\<^verbatim>\<open>Array.prototype.join(' ')\<close>.\<close>

fun joinSpace :: "jsstring list \<Rightarrow> jsstring" where
  "joinSpace [] = []"
| "joinSpace [s] = s"
| "joinSpace (s # t # ss) = s @ [0x20] @ joinSpace (t # ss)"

text \<open>
  \<^verbatim>\<open>Math.round\<close> rounds to the nearest integer, a half upwards;
  \<^verbatim>\<open>Math.round(x * 10) / 10\<close> keeps one decimal.
\<close>

definition mathRound :: "rat \<Rightarrow> int" where
  "mathRound x = \<lfloor>x + 1 / 2\<rfloor>"

definition round1 :: "rat \<Rightarrow> rat" where
  "round1 x = of_int (mathRound (x * 10)) / 10"

text \<open>The two \<^verbatim>\<open>if\<close> statements that bring a duration into the provider's range, in order.\<close>

definition clampDuration :: "rat \<Rightarrow> rat \<Rightarrow> rat \<Rightarrow> rat" where
  "clampDuration minDuration maxDuration d =
     (let d1 = (if d < minDuration then minDuration else d)
      in if d1 > maxDuration then maxDuration else d1)"

text \<open>
  The \<^verbatim>\<open>for\<close> loop over the sentences. The arguments after the constants are the loop
  state (\<open>currentSentences\<close>, \<open>currentDuration\<close>, \<open>sections\<close>) and the sentences still to
  visit; \<open>i === sentences.length - 1\<close> holds when none is left after the current one.
\<close>

fun sectionLoop ::
  "rat \<Rightarrow> rat \<Rightarrow> rat \<Rightarrow> rat \<Rightarrow> jsstring list \<Rightarrow> rat \<Rightarrow> ScriptSection list \<Rightarrow> jsstring list
     \<Rightarrow> ScriptSection list" where
  "sectionLoop charsPerSecond targetClipDuration minDuration maxDuration
       currentSentences currentDuration sections [] = sections"
| "sectionLoop charsPerSecond targetClipDuration minDuration maxDuration
       currentSentences currentDuration sections (sentence # rest) =
     (let sentenceDuration = of_nat (length sentence) / charsPerSecond;
          willExceedTarget = (currentDuration + sentenceDuration > targetClipDuration + 3 / 2);
          isLastSentence = (rest = [])
      in if (willExceedTarget \<and> length currentSentences > 0) \<or> isLastSentence then
           (let currentSentences1 =
                  (if isLastSentence then currentSentences @ [sentence] else currentSentences);
                currentDuration1 =
                  (if isLastSentence then currentDuration + sentenceDuration else currentDuration);
                finalDuration = clampDuration minDuration maxDuration currentDuration1;
                sections1 = sections @
                  [\<lparr> sectionText = joinSpace currentSentences1,
                     sectionDuration = round1 finalDuration \<rparr>]
            in if \<not> isLastSentence
               then sectionLoop charsPerSecond targetClipDuration minDuration maxDuration
                      [sentence] sentenceDuration sections1 rest
               else sectionLoop charsPerSecond targetClipDuration minDuration maxDuration
                      currentSentences1 currentDuration1 sections1 rest)
         else sectionLoop charsPerSecond targetClipDuration minDuration maxDuration
                (currentSentences @ [sentence]) (currentDuration + sentenceDuration) sections rest)"

text \<open>The sections before the rescaling pass, and their total.\<close>

definition rawSections :: "jsstring \<Rightarrow> rat \<Rightarrow> rat \<Rightarrow> rat \<Rightarrow> rat \<Rightarrow> ScriptSection list" where
  "rawSections script audioDuration targetClipDuration minDuration maxDuration =
     (let sentences = splitIntoSentences script;
          totalChars = length script;
          charsPerSecond = of_nat totalChars / audioDuration
      in sectionLoop charsPerSecond targetClipDuration minDuration maxDuration [] 0 [] sentences)"

definition totalCalculatedDuration :: "ScriptSection list \<Rightarrow> rat" where
  "totalCalculatedDuration sections = foldl (\<lambda>sum s. sum + sectionDuration s) 0 sections"

text \<open>
  \<^verbatim>\<open>splitScriptWithDurations\<close>. Where the source divides by zero and goes on with finite
  numbers (an audio duration of zero gives an infinite rate and sentence durations of
  zero), the quotient \<open>x / 0 = 0\<close> of HOL gives the same sentence durations. Where the
  total is zero and there are sections, the scale factor is infinite or \<^verbatim>\<open>NaN\<close> and so
  is every duration: that result is outside the rational model and is \<open>None\<close> here.
\<close>

definition splitScriptWithDurations ::
  "jsstring \<Rightarrow> rat \<Rightarrow> rat \<Rightarrow> rat \<Rightarrow> rat \<Rightarrow> ScriptSection list option" where
  "splitScriptWithDurations script audioDuration targetClipDuration minDuration maxDuration =
     (let sections = rawSections script audioDuration targetClipDuration minDuration maxDuration;
          total = totalCalculatedDuration sections;
          scaleFactor = audioDuration / total
      in if sections \<noteq> [] \<and> total = 0 then None
         else Some (map (\<lambda>s.
                \<lparr> sectionText = sectionText s,
                   sectionDuration =
                     round1 (clampDuration minDuration maxDuration (sectionDuration s * scaleFactor)) \<rparr>)
              sections))"

section \<open>Clip orchestrator (multi-clip.ts)\<close>

text \<open>An ASCII string literal of the source as a JavaScript string.\<close>

definition lit :: "string \<Rightarrow> jsstring" where
  "lit s = map of_char s"

definition startsWith :: "jsstring \<Rightarrow> jsstring \<Rightarrow> bool" where
  "startsWith s pre = (take (length pre) s = pre)"

datatype ClipStatus = Pending | Processing | Completed | Failed

record ClipInfo =
  index :: int
  scriptSection :: jsstring
  prompt :: jsstring
  duration :: rat
  status :: ClipStatus
  jobId :: "jsstring option"
  videoUrl :: "jsstring option"
  audioUrl :: "jsstring option"

definition initializeClipsFromSections :: "ScriptSection list \<Rightarrow> ClipInfo list" where
  "initializeClipsFromSections sections =
     map (\<lambda>(i, section).
            \<lparr> index = int i, scriptSection = sectionText section, prompt = [],
              duration = sectionDuration section, status = Pending,
              jobId = None, videoUrl = None, audioUrl = None \<rparr>)
         (enumerate 0 sections)"


text \<open>The parameter object passed to \<^verbatim>\<open>requestVeoVideo\<close> or \<^verbatim>\<open>requestHiggsfieldVideo\<close>.\<close>

record VideoRequest =
  reqPrompt :: jsstring
  reqModel :: jsstring
  reqAspectRatio :: jsstring
  reqDuration :: rat

text \<open>What a provider's status query returns (\<^verbatim>\<open>VeoVideoResult\<close>, \<^verbatim>\<open>HiggsfieldVideoResult\<close>).\<close>

record VideoResult =
  resultStatus :: ClipStatus
  resultVideoUrl :: "jsstring option"

text \<open>
  The external services. Every call is made for the clip at one position of the array,
  which is the first argument; \<open>None\<close> is a rejected promise (the call throws).
  \<^verbatim>\<open>saveVideo\<close> receives a file name built from the job id, the position and the clock;
  it is given the position and the buffer here and returns the stored URL.
\<close>

record Services =
  requestVeoVideo :: "nat \<Rightarrow> VideoRequest \<Rightarrow> jsstring option"
  requestHiggsfieldVideo :: "nat \<Rightarrow> VideoRequest \<Rightarrow> jsstring option"
  getVeoVideoResult :: "nat \<Rightarrow> jsstring \<Rightarrow> VideoResult option"
  getHiggsfieldVideoResult :: "nat \<Rightarrow> jsstring \<Rightarrow> VideoResult option"
  downloadFile :: "nat \<Rightarrow> jsstring \<Rightarrow> 8 word list option"
  saveVideo :: "nat \<Rightarrow> 8 word list \<Rightarrow> jsstring option"







text \<open>
  \<^verbatim>\<open>checkAndDownloadClips\<close>. The calls made to the services are recorded with the
  position of the clip they are made for.
\<close>

datatype Call = Poll nat jsstring | Download nat jsstring | Save nat

fun callIndex :: "Call \<Rightarrow> nat" where
  "callIndex (Poll i j) = i"
| "callIndex (Download i u) = i"
| "callIndex (Save i) = i"

datatype Counted = CountedPending | CountedCompleted | CountedFailed

text \<open>
  The body of the loop for the clip at position \<open>i\<close>: the value of \<^verbatim>\<open>updatedClips[i]\<close>
  after the iteration (the array starts as a copy of \<^verbatim>\<open>clips\<close>), the counter that the
  iteration increments, and the service calls it makes. An exception of a service call
  is caught and counts the clip as pending.
\<close>

record ClipCheck =
  checkedClip :: ClipInfo
  counted :: Counted
  made :: "Call list"

definition checkClip :: "Services \<Rightarrow> nat \<Rightarrow> ClipInfo \<Rightarrow> ClipCheck" where
  "checkClip ext i clip =
     (if status clip = Completed \<or> status clip = Failed then
        \<lparr> checkedClip = clip,
          counted = (if status clip = Completed then CountedCompleted else CountedFailed),
          made = [] \<rparr>
      else case jobId clip of
        None \<Rightarrow> \<lparr> checkedClip = clip, counted = CountedFailed, made = [] \<rparr>
      | Some jid \<Rightarrow>
        if jid = [] then \<lparr> checkedClip = clip, counted = CountedFailed, made = [] \<rparr>
        else
          (case (if startsWith jid (lit ''veo|'')
                 then getVeoVideoResult ext i jid else getHiggsfieldVideoResult ext i jid) of
             None \<Rightarrow> \<lparr> checkedClip = clip, counted = CountedPending, made = [Poll i jid] \<rparr>
           | Some r \<Rightarrow>
               (case resultVideoUrl r of
                  Some url \<Rightarrow>
                    if resultStatus r = Completed \<and> url \<noteq> [] then
                      (case downloadFile ext i url of
                         None \<Rightarrow>
                           \<lparr> checkedClip = clip, counted = CountedPending,
                             made = [Poll i jid, Download i url] \<rparr>
                       | Some videoBuffer \<Rightarrow>
                           (case saveVideo ext i videoBuffer of
                              None \<Rightarrow>
                                \<lparr> checkedClip = clip, counted = CountedPending,
                                  made = [Poll i jid, Download i url, Save i] \<rparr>
                            | Some savedUrl \<Rightarrow>
                                \<lparr> checkedClip = clip\<lparr> status := Completed, videoUrl := Some savedUrl \<rparr>,
                                  counted = CountedCompleted,
                                  made = [Poll i jid, Download i url, Save i] \<rparr>))
                    else if resultStatus r = Failed then
                      \<lparr> checkedClip = clip\<lparr> status := Failed \<rparr>, counted = CountedFailed,
                        made = [Poll i jid] \<rparr>
                    else \<lparr> checkedClip = clip, counted = CountedPending, made = [Poll i jid] \<rparr>
                | None \<Rightarrow>
                    if resultStatus r = Failed then
                      \<lparr> checkedClip = clip\<lparr> status := Failed \<rparr>, counted = CountedFailed,
                        made = [Poll i jid] \<rparr>
                    else \<lparr> checkedClip = clip, counted = CountedPending, made = [Poll i jid] \<rparr>)))"

text \<open>The loop state: the array, the three counters and the calls made so far.\<close>

record PollState =
  updatedClips :: "ClipInfo list"
  pendingCount :: nat
  completedCount :: nat
  failedCount :: nat
  calls :: "Call list"

definition tally :: "ClipCheck \<Rightarrow> PollState \<Rightarrow> PollState" where
  "tally c st =
     \<lparr> updatedClips = updatedClips st @ [checkedClip c],
       pendingCount = pendingCount st + (if counted c = CountedPending then 1 else 0),
       completedCount = completedCount st + (if counted c = CountedCompleted then 1 else 0),
       failedCount = failedCount st + (if counted c = CountedFailed then 1 else 0),
       calls = calls st @ made c \<rparr>"

fun checkLoop :: "Services \<Rightarrow> nat \<Rightarrow> ClipInfo list \<Rightarrow> PollState \<Rightarrow> PollState" where
  "checkLoop ext i [] st = st"
| "checkLoop ext i (clip # rest) st = checkLoop ext (Suc i) rest (tally (checkClip ext i clip) st)"

record PollResult =
  polledClips :: "ClipInfo list"
  allCompleted :: bool
  serviceCalls :: "Call list"

definition checkAndDownloadClips :: "Services \<Rightarrow> ClipInfo list \<Rightarrow> jsstring \<Rightarrow> PollResult" where
  "checkAndDownloadClips ext clips job =
     (let st = checkLoop ext 0 clips
                 \<lparr> updatedClips = [], pendingCount = 0, completedCount = 0, failedCount = 0,
                   calls = [] \<rparr>
      in \<lparr> polledClips = updatedClips st, allCompleted = (pendingCount st = 0),
           serviceCalls = calls st \<rparr>)"

section \<open>Media tools (ffmpeg.ts)\<close>

text \<open>
  The external processes and file-system calls of the media code, as data. The numbers
  are the durations in seconds that the command line carries (\<^verbatim>\<open>-t\<close>).
\<close>

datatype Command =
    FfmpegVersion
  | Ffprobe jsstring
  | Mkdir jsstring
  | WriteFile jsstring "jsstring list"
  | Stat jsstring
  | CopyFile jsstring jsstring
  | Unlink jsstring
  | FillerPipe jsstring jsstring rat
  | ExtractLastFrame jsstring jsstring
  | StillVideo jsstring jsstring rat
  | ConcatLimited jsstring jsstring rat jsstring
  | ConcatShortest jsstring jsstring jsstring
  | ConcatPlain jsstring jsstring
  | Freeze jsstring jsstring rat
  | SlowDown jsstring jsstring rat
  | ZoomPan jsstring jsstring rat
  | Loop jsstring jsstring rat
  | Trim jsstring jsstring rat
  | Dub jsstring jsstring jsstring
  | Xfade "jsstring list" jsstring

text \<open>The exceptions of the source; \<open>CommandFailed\<close> is the rejection of an external call.\<close>

datatype Error =
    NoVideos
  | FFmpegNotInstalled
  | NoCompletedClips
  | NoValidScenes
  | InvalidUrl jsstring
  | MissingPath
  | CommandFailed Command

text \<open>
  The environment: which external calls succeed, the duration of the file that a
  successful \<^verbatim>\<open>ffmpeg\<close> call writes, and the path functions of the platform
  (\<^verbatim>\<open>path.join\<close>, \<^verbatim>\<open>path.dirname\<close>, \<^verbatim>\<open>path.isAbsolute\<close>, \<^verbatim>\<open>process.cwd()\<close>,
  \<^verbatim>\<open>new URL(u).pathname\<close>, which throws on an invalid URL).
\<close>

record World =
  succeeds :: "Command \<Rightarrow> bool"
  produced :: "Command \<Rightarrow> rat"
  pathJoin :: "jsstring list \<Rightarrow> jsstring"
  pathDirname :: "jsstring \<Rightarrow> jsstring"
  pathIsAbsolute :: "jsstring \<Rightarrow> bool"
  cwd :: jsstring
  urlPathname :: "jsstring \<Rightarrow> jsstring option"

text \<open>
  The media files on disk: the duration in seconds of the file at a path. \<^verbatim>\<open>ffprobe\<close>
  prints it; the call fails when the process fails or there is no such file. A printed
  value that is not a number is outside the model.
\<close>

type_synonym Media = "jsstring \<Rightarrow> rat option"

definition ffprobe :: "World \<Rightarrow> Media \<Rightarrow> jsstring \<Rightarrow> rat option" where
  "ffprobe w m p = (if succeeds w (Ffprobe p) then m p else None)"

definition checkFFmpegInstalled :: "World \<Rightarrow> bool" where
  "checkFFmpegInstalled w = succeeds w FfmpegVersion"

definition getAudioDuration :: "World \<Rightarrow> Media \<Rightarrow> jsstring \<Rightarrow> rat" where
  "getAudioDuration w m audioPath = (case ffprobe w m audioPath of Some d \<Rightarrow> d | None \<Rightarrow> 60)"

definition getVideoDuration :: "World \<Rightarrow> Media \<Rightarrow> jsstring \<Rightarrow> rat" where
  "getVideoDuration w m videoPath = (case ffprobe w m videoPath of Some d \<Rightarrow> d | None \<Rightarrow> 0)"

text \<open>\<^verbatim>\<open>String.prototype.replace\<close> with a string pattern: the first occurrence only.\<close>

fun replaceFirst :: "jsstring \<Rightarrow> jsstring \<Rightarrow> jsstring \<Rightarrow> jsstring" where
  "replaceFirst pat rep [] = (if pat = [] then rep else [])"
| "replaceFirst pat rep (c # s) =
     (if startsWith (c # s) pat then rep @ drop (length pat) (c # s)
      else c # replaceFirst pat rep s)"

text \<open>
  \<^verbatim>\<open>createFillerFromLastFrame\<close>: the piped command, and when it fails the two-step way
  (extract the last frame, then make the still video); the temporary frame is removed
  and a failure of that removal is ignored.
\<close>

definition createFillerFromLastFrame :: "World \<Rightarrow> jsstring \<Rightarrow> jsstring \<Rightarrow> rat \<Rightarrow> Error + unit" where
  "createFillerFromLastFrame w sourceVideoPath outputPath d =
     (if \<not> checkFFmpegInstalled w then Inl FFmpegNotInstalled
      else if succeeds w (FillerPipe sourceVideoPath outputPath d) then Inr ()
      else
        (let tmpFrame = replaceFirst (lit ''.mp4'') (lit ''_frame.png'') outputPath
         in if \<not> succeeds w (ExtractLastFrame sourceVideoPath tmpFrame)
            then Inl (CommandFailed (ExtractLastFrame sourceVideoPath tmpFrame))
            else if \<not> succeeds w (StillVideo tmpFrame outputPath d)
            then Inl (CommandFailed (StillVideo tmpFrame outputPath d))
            else Inr ()))"

text \<open>
  \<^verbatim>\<open>mergeVideos\<close>: the plain concatenation. The result is the list written to
  \<^verbatim>\<open>clips.txt\<close>, which is what the concat invocation joins, in order. The temporary
  directory is made before the \<^verbatim>\<open>try\<close>; its removal in \<^verbatim>\<open>finally\<close> ignores errors.
\<close>

definition mergeVideos ::
  "World \<Rightarrow> jsstring list \<Rightarrow> jsstring \<Rightarrow> jsstring option \<Rightarrow> Error + jsstring list" where
  "mergeVideos w videoPaths outputPath audioPath =
     (if length videoPaths = 0 then Inl NoVideos
      else if \<not> checkFFmpegInstalled w then Inl FFmpegNotInstalled
      else
        (let tmpDir = pathJoin w [pathDirname w outputPath, lit ''tmp_merge''];
             listFile = pathJoin w [tmpDir, lit ''clips.txt''];
             ffmpegCmd = (if truthy audioPath
                          then ConcatShortest listFile (the audioPath) outputPath
                          else ConcatPlain listFile outputPath)
         in if \<not> succeeds w (Mkdir tmpDir) then Inl (CommandFailed (Mkdir tmpDir))
            else if \<not> succeeds w (WriteFile listFile videoPaths)
            then Inl (CommandFailed (WriteFile listFile videoPaths))
            else if \<not> succeeds w ffmpegCmd then Inl (CommandFailed ffmpegCmd)
            else if \<not> succeeds w (Stat outputPath) then Inl (CommandFailed (Stat outputPath))
            else Inr videoPaths))"

text \<open>
  What a successful \<^verbatim>\<open>mergeVideosWithAudioSync\<close> has done: the filler it asked for (source
  video, filler file, duration), the files listed for the concat invocation in order, the
  audio input, the \<^verbatim>\<open>-t\<close> limit and the output path, which is the value returned.
\<close>

record MergeRun =
  fillerRequest :: "(jsstring \<times> jsstring \<times> rat) option"
  concatList :: "jsstring list"
  concatAudio :: jsstring
  concatLimit :: rat
  mergedOutput :: jsstring

definition mergeVideosWithAudioSync ::
  "World \<Rightarrow> Media \<Rightarrow> jsstring list \<Rightarrow> jsstring \<Rightarrow> jsstring \<Rightarrow> Error + MergeRun" where
  "mergeVideosWithAudioSync w m videoPaths audioPath outputPath =
     (if length videoPaths = 0 then Inl NoVideos
      else if \<not> checkFFmpegInstalled w then Inl FFmpegNotInstalled
      else
        (let audioDuration = getAudioDuration w m audioPath;
             totalVideoDuration = foldl (\<lambda>total p. total + getVideoDuration w m p) 0 videoPaths;
             tmpDir = pathJoin w [pathDirname w outputPath, lit ''tmp_sync_merge''];
             needFiller = (totalVideoDuration < audioDuration - 1 / 2);
             shortfall = audioDuration - totalVideoDuration + 1;
             lastVideoPath = last videoPaths;
             fillerPath = pathJoin w [tmpDir, lit ''filler.mp4''];
             finalVideoPaths = (if needFiller then videoPaths @ [fillerPath] else videoPaths);
             listFile = pathJoin w [tmpDir, lit ''clips.txt''];
             ffmpegCmd = ConcatLimited listFile audioPath audioDuration outputPath
         in if \<not> succeeds w (Mkdir tmpDir) then Inl (CommandFailed (Mkdir tmpDir))
            else case (if needFiller
                       then createFillerFromLastFrame w lastVideoPath fillerPath shortfall
                       else Inr ()) of
              Inl e \<Rightarrow> Inl e
            | Inr u \<Rightarrow>
                if \<not> succeeds w (WriteFile listFile finalVideoPaths)
                then Inl (CommandFailed (WriteFile listFile finalVideoPaths))
                else if \<not> succeeds w ffmpegCmd then Inl (CommandFailed ffmpegCmd)
                else if \<not> succeeds w (Stat outputPath) then Inl (CommandFailed (Stat outputPath))
                else Inr \<lparr> fillerRequest =
                             (if needFiller then Some (lastVideoPath, fillerPath, shortfall) else None),
                           concatList = finalVideoPaths, concatAudio = audioPath,
                           concatLimit = audioDuration, mergedOutput = outputPath \<rparr>))"


section \<open>Merging the clips (multi-clip.ts)\<close>

text \<open>
  The completed clips in index order: \<^verbatim>\<open>filter\<close>, then the stable \<^verbatim>\<open>sort\<close> with the
  comparator \<^verbatim>\<open>a.index - b.index\<close>.
\<close>

definition completedClips :: "ClipInfo list \<Rightarrow> ClipInfo list" where
  "completedClips clips =
     sort_key index (filter (\<lambda>clip. status clip = Completed \<and> truthy (videoUrl clip)) clips)"

definition clipPath :: "World \<Rightarrow> ClipInfo \<Rightarrow> Error + jsstring" where
  "clipPath w clip =
     (case videoUrl clip of
        None \<Rightarrow> Inl MissingPath
      | Some url \<Rightarrow>
          if startsWith url (lit ''/'') then Inr (pathJoin w [cwd w, lit ''public'', url])
          else (case urlPathname w url of
                  None \<Rightarrow> Inl (InvalidUrl url)
                | Some urlPath \<Rightarrow> Inr (pathJoin w [cwd w, lit ''public'', urlPath])))"

text \<open>\<^verbatim>\<open>completedClips.map(...)\<close>: the first exception ends the call.\<close>

fun clipPaths :: "World \<Rightarrow> ClipInfo list \<Rightarrow> Error + jsstring list" where
  "clipPaths w [] = Inr []"
| "clipPaths w (clip # rest) =
     (case clipPath w clip of
        Inl e \<Rightarrow> Inl e
      | Inr p \<Rightarrow> (case clipPaths w rest of Inl e \<Rightarrow> Inl e | Inr ps \<Rightarrow> Inr (p # ps)))"

datatype Merged = Synced MergeRun | Joined "jsstring list"


definition mergeClipsIntoVideo ::
  "World \<Rightarrow> Media \<Rightarrow> ClipInfo list \<Rightarrow> jsstring \<Rightarrow> jsstring option \<Rightarrow> Error + Merged" where
  "mergeClipsIntoVideo w m clips outputPath audioPath =
     (if length (completedClips clips) = 0 then Inl NoCompletedClips
      else case clipPaths w (completedClips clips) of
        Inl e \<Rightarrow> Inl e
      | Inr paths \<Rightarrow>
          (case audioPath of
             None \<Rightarrow>
               (case mergeVideos w paths outputPath None of
                  Inl e \<Rightarrow> Inl e | Inr listed \<Rightarrow> Inr (Joined listed))
           | Some ap \<Rightarrow>
               if ap = [] then
                 (case mergeVideos w paths outputPath None of
                    Inl e \<Rightarrow> Inl e | Inr listed \<Rightarrow> Inr (Joined listed))
               else
                 (let localAudioPath =
                        (if pathIsAbsolute w ap then ap else pathJoin w [cwd w, lit ''public'', ap])
                  in case mergeVideosWithAudioSync w m paths localAudioPath outputPath of
                       Inl e \<Rightarrow> Inl e | Inr run \<Rightarrow> Inr (Synced run))))"

section \<open>Scenes (core types)\<close>

datatype VideoStatus = ScenePending | SceneGenerating | SceneCompleted | SceneFailed | SceneAdjusted

datatype AdjustmentType = AdjustNone | AdjustLoop | AdjustFreeze | AdjustTrim | AdjustKenBurns

text \<open>\<^verbatim>\<open>Scene\<close>; \<open>id\<close>, \<open>text\<close> and \<open>prompt\<close> are prefixed.\<close>

record Scene =
  sceneId :: int
  sceneText :: jsstring
  scenePrompt :: "jsstring option"
  audioPath :: "jsstring option"
  audioDurationMs :: rat
  audioIncluded :: "bool option"
  videoPath :: "jsstring option"
  videoDurationMs :: "rat option"
  videoStatus :: VideoStatus
  adjustmentType :: "AdjustmentType option"
  adjustedVideoPath :: "jsstring option"
  startTimeMs :: "rat option"
  endTimeMs :: "rat option"
  errorMessage :: "jsstring option"


section \<open>Duration adjuster (VideoManager)\<close>




text \<open>
  The file operations on the media store. A call that fails throws and leaves the store
  as it was. A copy gives the target the content, hence the duration, of its source; an
  \<^verbatim>\<open>ffmpeg\<close> call writes a file whose duration the environment determines.
\<close>

definition copyFile :: "World \<Rightarrow> Media \<Rightarrow> jsstring \<Rightarrow> jsstring \<Rightarrow> Error + Media" where
  "copyFile w m src dst =
     (case m src of
        None \<Rightarrow> Inl (CommandFailed (CopyFile src dst))
      | Some d \<Rightarrow>
          if succeeds w (CopyFile src dst) then Inr (m(dst \<mapsto> d))
          else Inl (CommandFailed (CopyFile src dst)))"

definition runFfmpeg :: "World \<Rightarrow> Media \<Rightarrow> Command \<Rightarrow> jsstring \<Rightarrow> Error + Media" where
  "runFfmpeg w m cmd dst =
     (if succeeds w cmd then Inr (m(dst \<mapsto> produced w cmd)) else Inl (CommandFailed cmd))"




















section \<open>Timeline composer\<close>

text \<open>
  The scenes that \<^verbatim>\<open>TimelineComposer.compose\<close> joins, in the order it joins them, and the
  clip it takes for a scene: \<^verbatim>\<open>s.adjustedVideoPath || s.videoPath\<close>.
\<close>

definition scenePath :: "Scene \<Rightarrow> jsstring option" where
  "scenePath s = (if truthy (adjustedVideoPath s) then adjustedVideoPath s else videoPath s)"

definition validScenes :: "Scene list \<Rightarrow> Scene list" where
  "validScenes scenes =
     sort_key sceneId
       (filter (\<lambda>s. (videoStatus s = SceneAdjusted \<or> videoStatus s = SceneCompleted) \<and>
                     (truthy (adjustedVideoPath s) \<or> truthy (videoPath s))) scenes)"

datatype TransitionPreset = SmashCut | WhipPan | ScaleIn | Fade | NoTransition

definition composerDir :: "World \<Rightarrow> jsstring \<Rightarrow> jsstring" where
  "composerDir w job = pathJoin w [cwd w, lit ''public'', lit ''videos'', lit ''jobs'', job]"

text \<open>The input file of each scene, in order; a missing path makes \<^verbatim>\<open>path.join\<close> throw.\<close>

fun sceneFiles :: "World \<Rightarrow> Scene list \<Rightarrow> Error + jsstring list" where
  "sceneFiles w [] = Inr []"
| "sceneFiles w (s # rest) =
     (case scenePath s of
        None \<Rightarrow> Inl MissingPath
      | Some p \<Rightarrow>
          (case sceneFiles w rest of
             Inl e \<Rightarrow> Inl e
           | Inr ps \<Rightarrow> Inr (pathJoin w [cwd w, lit ''public'', p] # ps)))"

text \<open>
  \<^verbatim>\<open>composeWithConcatDemuxer\<close>: the list file, the concat command, the removal of the list
  file (not guarded here). The result is the store and the files joined, in order.
\<close>

definition composeWithConcatDemuxer ::
  "World \<Rightarrow> Media \<Rightarrow> jsstring \<Rightarrow> Scene list \<Rightarrow> Error + Media \<times> jsstring list" where
  "composeWithConcatDemuxer w m job scenes =
     (let listPath = pathJoin w [composerDir w job, lit ''video_list.txt''];
          outputPath = pathJoin w [composerDir w job, lit ''composed.mp4'']
      in case sceneFiles w scenes of
           Inl e \<Rightarrow> Inl e
         | Inr files \<Rightarrow>
             if \<not> succeeds w (WriteFile listPath files)
             then Inl (CommandFailed (WriteFile listPath files))
             else (case runFfmpeg w m (ConcatPlain listPath outputPath) outputPath of
                     Inl e \<Rightarrow> Inl e
                   | Inr m1 \<Rightarrow>
                       if \<not> succeeds w (Unlink listPath) then Inl (CommandFailed (Unlink listPath))
                       else Inr (m1, files)))"

text \<open>
  \<^verbatim>\<open>composeWithTransitions\<close>: one scene is copied; several are cross-faded in one command
  that takes the scenes' files as inputs in order, and when that command fails the plain
  concatenation is used.
\<close>

definition composeWithTransitions ::
  "World \<Rightarrow> Media \<Rightarrow> jsstring \<Rightarrow> Scene list \<Rightarrow> Error + Media \<times> jsstring list" where
  "composeWithTransitions w m job scenes =
     (let outputPath = pathJoin w [composerDir w job, lit ''composed.mp4'']
      in if length scenes = 1 then
           (case sceneFiles w scenes of
              Inl e \<Rightarrow> Inl e
            | Inr files \<Rightarrow>
                (case copyFile w m (hd files) outputPath of
                   Inl e \<Rightarrow> Inl e
                 | Inr m1 \<Rightarrow> Inr (m1, files)))
         else
           (case sceneFiles w scenes of
              Inl e \<Rightarrow> Inl e
            | Inr files \<Rightarrow>
                (case runFfmpeg w m (Xfade files outputPath) outputPath of
                   Inl e \<Rightarrow> composeWithConcatDemuxer w m job scenes
                 | Inr m1 \<Rightarrow> Inr (m1, files))))"

text \<open>
  \<^verbatim>\<open>compose\<close>. Besides the fields of \<^verbatim>\<open>CompositionResult\<close> the result lists the files
  that were joined, in order.
\<close>

record CompositionResult =
  composedFrom :: "jsstring list"
  composedPath :: jsstring
  totalDurationMs :: int
  scenesIncluded :: nat

definition compose ::
  "World \<Rightarrow> Media \<Rightarrow> jsstring \<Rightarrow> TransitionPreset \<Rightarrow> Scene list \<Rightarrow> Error + CompositionResult" where
  "compose w m job preset scenes =
     (if \<not> succeeds w (Mkdir (composerDir w job))
      then Inl (CommandFailed (Mkdir (composerDir w job)))
      else if length (validScenes scenes) = 0 then Inl NoValidScenes
      else case (if preset = SmashCut \<or> preset = NoTransition
                 then composeWithConcatDemuxer w m job (validScenes scenes)
                 else composeWithTransitions w m job (validScenes scenes)) of
        Inl e \<Rightarrow> Inl e
      | Inr (m1, files) \<Rightarrow>
          (case ffprobe w m1 (pathJoin w [composerDir w job, lit ''composed.mp4'']) of
             None \<Rightarrow>
               Inl (CommandFailed (Ffprobe (pathJoin w [composerDir w job, lit ''composed.mp4''])))
           | Some d \<Rightarrow>
               Inr \<lparr> composedFrom = files,
                     composedPath = lit ''/videos/jobs/'' @ job @ lit ''/composed.mp4'',
                     totalDurationMs = mathRound (d * 1000),
                     scenesIncluded = length (validScenes scenes) \<rparr>))"

section \<open>Example inputs\<close>

text \<open>Two steps named \<^verbatim>\<open>a\<close> and \<^verbatim>\<open>b\<close>, and an update that completes a step at time \<^verbatim>\<open>t\<close>.\<close>

definition exampleSteps :: "unit MultiClipStep list" where
  "exampleSteps =
     [\<lparr> stepId = [0x61], stepName = [], stepStatus = StepPending,
        startTime = None, endTime = None, result = None, error = None \<rparr>,
      \<lparr> stepId = [0x62], stepName = [], stepStatus = StepPending,
        startTime = None, endTime = None, result = None, error = None \<rparr>]"

definition exampleUpdate :: "unit PartialStep" where
  "exampleUpdate =
     \<lparr> p_id = None, p_name = None, p_status = Some StepCompleted, p_startTime = None,
       p_endTime = Some (Some [0x74]), p_result = None, p_error = None \<rparr>"

text \<open>The scripts \<^verbatim>\<open>A.\<close> and \<^verbatim>\<open>A. B. C.\<close>\<close>

definition scriptA :: jsstring where
  "scriptA = [0x41, 0x2E]"

definition scriptABC :: jsstring where
  "scriptABC = [0x41, 0x2E, 0x20, 0x42, 0x2E, 0x20, 0x43, 0x2E]"

text \<open>
  Services that accept every request, report every job as still processing, and store
  every download; a pending clip without a job id.
\<close>

definition exampleServices :: Services where
  "exampleServices =
     \<lparr> requestVeoVideo = (\<lambda>i r. Some (lit ''veo|op'')),
       requestHiggsfieldVideo = (\<lambda>i r. Some (lit ''higgsfield|req'')),
       getVeoVideoResult = (\<lambda>i j. Some \<lparr> resultStatus = Processing, resultVideoUrl = None \<rparr>),
       getHiggsfieldVideoResult = (\<lambda>i j. Some \<lparr> resultStatus = Processing, resultVideoUrl = None \<rparr>),
       downloadFile = (\<lambda>i u. Some []),
       saveVideo = (\<lambda>i b. Some (lit ''/videos/clip.mp4'')) \<rparr>"

definition exampleClip :: "int \<Rightarrow> rat \<Rightarrow> ClipInfo" where
  "exampleClip i d =
     \<lparr> index = i, scriptSection = [], prompt = [], duration = d, status = Pending,
       jobId = None, videoUrl = None, audioUrl = None \<rparr>"

text \<open>
  An environment in which every external call succeeds and every \<^verbatim>\<open>ffmpeg\<close> call writes
  a file of 4.7 seconds; paths are joined with a slash. Two variants: one in which
  \<^verbatim>\<open>ffprobe\<close> always fails, one in which the freeze command fails.
\<close>

fun exampleJoin :: "jsstring list \<Rightarrow> jsstring" where
  "exampleJoin [] = []"
| "exampleJoin [p] = p"
| "exampleJoin (p # q # ps) = p @ [0x2F] @ exampleJoin (q # ps)"

definition exampleWorld :: World where
  "exampleWorld =
     \<lparr> succeeds = (\<lambda>c. True), produced = (\<lambda>c. 47 / 10), pathJoin = exampleJoin,
       pathDirname = (\<lambda>p. lit ''/out''), pathIsAbsolute = (\<lambda>p. startsWith p (lit ''/'')),
       cwd = lit ''/app'', urlPathname = (\<lambda>u. None) \<rparr>"

definition noProbeWorld :: World where
  "noProbeWorld = exampleWorld\<lparr> succeeds := (\<lambda>c. case c of Ffprobe p \<Rightarrow> False | _ \<Rightarrow> True) \<rparr>"



definition examplePaths :: "jsstring list" where
  "examplePaths = [lit ''/c1.mp4'', lit ''/c2.mp4'', lit ''/c3.mp4'']"

definition mergeMedia :: Media where
  "mergeMedia = [lit ''/c1.mp4'' \<mapsto> 8, lit ''/c2.mp4'' \<mapsto> 8, lit ''/c3.mp4'' \<mapsto> 6,
                 lit ''/n.mp3'' \<mapsto> 25]"

text \<open>
  A completed scene of 5000 ms whose narration of 4700 ms is to be dubbed; the same scene
  with the audio already in the video and a narration of 5200 ms; and with a narration of
  6200 ms.
\<close>

definition dubbedScene :: Scene where
  "dubbedScene =
     \<lparr> sceneId = 1, sceneText = [], scenePrompt = None, audioPath = Some (lit ''a.mp3''),
       audioDurationMs = 4700, audioIncluded = Some False, videoPath = Some (lit ''v.mp4''),
       videoDurationMs = Some 5000, videoStatus = SceneCompleted, adjustmentType = None,
       adjustedVideoPath = None, startTimeMs = None, endTimeMs = None, errorMessage = None \<rparr>"




definition waitingScene :: Scene where
  "waitingScene = dubbedScene\<lparr> videoStatus := SceneGenerating \<rparr>"


section \<open>Properties\<close>

text \<open>
  C9. For every steps array, step id and partial update, \<open>updateStep\<close> returns an array of
  the same length; at every position, a step whose id differs from the given id is the
  original step itself, and a step whose id matches is the original step with the
  update's fields merged in.
\<close>

theorem updateStep_frame:
  "length (updateStep steps sid updates) = length steps \<and>
   (\<forall>i < length steps.
      (stepId (steps ! i) \<noteq> sid \<longrightarrow> updateStep steps sid updates ! i = steps ! i) \<and>
      (stepId (steps ! i) = sid \<longrightarrow> updateStep steps sid updates ! i = spread (steps ! i) updates))"
  by (simp add: updateStep_def)

theorem updateStep_frame_witness:
  "(1::nat) < length exampleSteps \<and>
   stepId (exampleSteps ! 0) \<noteq> [0x62] \<and> stepId (exampleSteps ! 1) = [0x62] \<and>
   updateStep exampleSteps [0x62] exampleUpdate ! 0 = exampleSteps ! 0 \<and>
   updateStep exampleSteps [0x62] exampleUpdate ! 1 =
     \<lparr> stepId = [0x62], stepName = [], stepStatus = StepCompleted,
       startTime = None, endTime = Some [0x74], result = None, error = None \<rparr>"
proof -
  have len: "length exampleSteps = 2"
    by (simp add: exampleSteps_def)
  have ids: "stepId (exampleSteps ! 0) \<noteq> [0x62]" "stepId (exampleSteps ! 1) = [0x62]"
    by (simp_all add: exampleSteps_def)
  have "spread (exampleSteps ! 1) exampleUpdate =
     \<lparr> stepId = [0x62], stepName = [], stepStatus = StepCompleted,
       startTime = None, endTime = Some [0x74], result = None, error = None \<rparr>"
    by (simp add: spread_def exampleSteps_def exampleUpdate_def)
  then show ?thesis
    using updateStep_frame [of exampleSteps "[0x62]" exampleUpdate] len ids
    by simp
qed

subsection \<open>Segmenter\<close>

lemma clampDuration_range:
  "mn \<le> mx \<Longrightarrow> mn \<le> clampDuration mn mx d \<and> clampDuration mn mx d \<le> mx"
  by (simp add: clampDuration_def Let_def)

lemma clampDuration_id:
  "mn \<le> d \<Longrightarrow> d \<le> mx \<Longrightarrow> clampDuration mn mx d = d"
  by (simp add: clampDuration_def Let_def)

lemma round1_fix:
  assumes "x * 10 \<in> \<int>"
  shows "round1 x = x"
proof -
  from assms obtain k :: int where k: "x * 10 = of_int k"
    by (auto elim: Ints_cases)
  have "\<lfloor>(of_int k :: rat) + 1 / 2\<rfloor> = k"
    by linarith
  then show ?thesis
    using k by (simp add: round1_def mathRound_def)
qed

lemma round1_mono: "x \<le> y \<Longrightarrow> round1 x \<le> round1 y"
  by (simp add: round1_def mathRound_def divide_right_mono floor_mono)

lemma round1_range:
  assumes "mn \<le> x" "x \<le> mx" "mn * 10 \<in> \<int>" "mx * 10 \<in> \<int>"
  shows "mn \<le> round1 x \<and> round1 x \<le> mx"
  using round1_mono [OF assms(1)] round1_mono [OF assms(2)] round1_fix [OF assms(3)] round1_fix [OF assms(4)]
  by simp

lemma round1_error: "\<bar>round1 x - x\<bar> \<le> 1 / 20"
proof -
  define k :: rat where "k = of_int \<lfloor>x * 10 + 1 / 2\<rfloor>"
  have a: "k \<le> x * 10 + 1 / 2" unfolding k_def by linarith
  have b: "x * 10 + 1 / 2 < k + 1" unfolding k_def by linarith
  have c: "round1 x = k / 10" by (simp add: round1_def mathRound_def k_def)
  have "k / 10 - x \<le> 1 / 20" using a by linarith
  moreover have "- (1 / 20) \<le> k / 10 - x" using b by linarith
  ultimately show ?thesis
    unfolding c by (intro abs_leI) linarith+
qed

lemma abs_step:
  fixes a b c d n :: rat
  assumes "\<bar>a - b\<bar> \<le> 1 / 20" "\<bar>c - d\<bar> \<le> n / 20"
  shows "\<bar>a + c - (b + d)\<bar> \<le> (1 + n) / 20"
proof -
  have "\<bar>a + c - (b + d)\<bar> = \<bar>(a - b) + (c - d)\<bar>" by (simp add: algebra_simps)
  also have "\<dots> \<le> \<bar>a - b\<bar> + \<bar>c - d\<bar>" by (rule abs_triangle_ineq)
  also have "\<dots> \<le> 1 / 20 + n / 20" using assms by (rule add_mono)
  finally show ?thesis by (simp add: add_divide_distrib)
qed

lemma total_sum_list:
  "foldl (\<lambda>sum s. sum + sectionDuration s) a xs = a + sum_list (map sectionDuration xs)"
  by (induction xs arbitrary: a) (simp_all add: add.assoc)

lemma totalCalculatedDuration_sum:
  "totalCalculatedDuration xs = sum_list (map sectionDuration xs)"
  by (simp add: totalCalculatedDuration_def total_sum_list)

lemma sectionLoop_sections:
  "mn \<le> mx \<Longrightarrow> mn * 10 \<in> \<int> \<Longrightarrow> mx * 10 \<in> \<int> \<Longrightarrow>
   \<forall>s\<in>set acc. mn \<le> sectionDuration s \<and> sectionDuration s \<le> mx \<Longrightarrow>
   (\<forall>s\<in>set (sectionLoop cps target mn mx cs cd acc rest).
            mn \<le> sectionDuration s \<and> sectionDuration s \<le> mx) \<and>
         (rest \<noteq> [] \<or> acc \<noteq> [] \<longrightarrow> sectionLoop cps target mn mx cs cd acc rest \<noteq> [])"
proof (induction cps target mn mx cs cd acc rest rule: sectionLoop.induct)
  case (1 cps target mn mx cs cd acc)
  then show ?case by simp
next
  case (2 cps target mn mx cs cd acc sentence rest)
  define sd where "sd = of_nat (length sentence) / cps"
  define sec where "sec d ss = \<lparr> sectionText = joinSpace ss, sectionDuration = round1 (clampDuration mn mx d) \<rparr>" for d ss
  have r: "mn \<le> sectionDuration (sec d ss) \<and> sectionDuration (sec d ss) \<le> mx" for d ss
  proof -
    have "mn \<le> clampDuration mn mx d" "clampDuration mn mx d \<le> mx"
      using 2(4) clampDuration_range [of mn mx d] by simp_all
    from round1_range [OF this 2(5) 2(6)] show ?thesis
      by (simp add: sec_def)
  qed
  have acc': "\<forall>s\<in>set (acc @ [sec d ss]). mn \<le> sectionDuration s \<and> sectionDuration s \<le> mx" for d ss
    using 2(7) r by auto
  show ?case
  proof (cases "rest = []")
    case True
    then show ?thesis
      using acc' [of "cd + sd" "cs @ [sentence]"] by (simp add: Let_def sd_def sec_def)
  next
    case False
    show ?thesis
    proof (cases "cd + sd > target + 3 / 2 \<and> length cs > 0")
      case True
      have "(\<forall>s\<in>set (sectionLoop cps target mn mx [sentence] sd (acc @ [sec cd cs]) rest).
               mn \<le> sectionDuration s \<and> sectionDuration s \<le> mx) \<and>
            (rest \<noteq> [] \<or> acc @ [sec cd cs] \<noteq> [] \<longrightarrow>
               sectionLoop cps target mn mx [sentence] sd (acc @ [sec cd cs]) rest \<noteq> [])"
        using 2(1) [OF refl refl refl _ refl refl refl refl] True False 2(4,5,6) acc' [of cd cs]
        by (simp add: sd_def sec_def)
      then show ?thesis
        using True False by (simp add: Let_def sd_def sec_def)
    next
      case nex: False
      have "(\<forall>s\<in>set (sectionLoop cps target mn mx (cs @ [sentence]) (cd + sd) acc rest).
               mn \<le> sectionDuration s \<and> sectionDuration s \<le> mx) \<and>
            (rest \<noteq> [] \<or> acc \<noteq> [] \<longrightarrow>
               sectionLoop cps target mn mx (cs @ [sentence]) (cd + sd) acc rest \<noteq> [])"
        using 2(3) [OF refl refl refl] nex False 2(4,5,6,7)
        by (simp add: sd_def)
      then show ?thesis
        using nex False by (auto simp add: Let_def sd_def)
    qed
  qed
qed


text \<open>
  C1 as stated fails: the script \<^verbatim>\<open>A.\<close> is one sentence; with a measured audio duration
  of 30 seconds and the default limits (target 10, minimum 4, maximum 10) the only section
  is clamped to 10 seconds in both passes, 20 seconds away from the audio duration.
\<close>

theorem splitScriptWithDurations_sum_counterexample:
  "splitIntoSentences scriptA \<noteq> [] \<and> (0::rat) < 30 \<and>
   splitScriptWithDurations scriptA 30 10 4 10
     = Some [\<lparr> sectionText = scriptA, sectionDuration = 10 \<rparr>] \<and>
   \<not> \<bar>sum_list (map sectionDuration [\<lparr> sectionText = scriptA, sectionDuration = 10 \<rparr>]) - 30\<bar> \<le> 1"
  by code_simp

text \<open>
  C1, amended. For every script with at least one sentence and limits
  \<open>0 < minDuration \<le> maxDuration\<close> given in tenths of a second (as 4, 8 and 10 are), the
  split returns at least one section, and every section's duration lies in
  \<open>[minDuration, maxDuration]\<close>: the final clamp takes precedence over the audio duration.
  The sum of the durations is tied to the audio duration only when the final clamp
  changes no rescaled duration: then the sum differs from it by at most 0.05 seconds per
  section (the rounding to one decimal), so by at most one second up to 20 sections.
\<close>

theorem splitScriptWithDurations_range:
  assumes sent: "splitIntoSentences script \<noteq> []"
    and mn: "0 < mn" "mn \<le> mx" "mn * 10 \<in> \<int>" "mx * 10 \<in> \<int>"
  shows "\<exists>secs. splitScriptWithDurations script D target mn mx = Some secs \<and> secs \<noteq> [] \<and>
           (\<forall>s\<in>set secs. mn \<le> sectionDuration s \<and> sectionDuration s \<le> mx) \<and>
           ((\<forall>r\<in>set (rawSections script D target mn mx).
                mn \<le> sectionDuration r * (D / totalCalculatedDuration (rawSections script D target mn mx)) \<and>
                sectionDuration r * (D / totalCalculatedDuration (rawSections script D target mn mx)) \<le> mx)
             \<longrightarrow> \<bar>sum_list (map sectionDuration secs) - D\<bar> \<le> of_nat (length secs) / 20)"
proof -
  define raw where "raw = rawSections script D target mn mx"
  define total where "total = totalCalculatedDuration raw"
  define fin :: "ScriptSection \<Rightarrow> ScriptSection" where "fin = (\<lambda>s. \<lparr> sectionText = sectionText s,
       sectionDuration = round1 (clampDuration mn mx (sectionDuration s * (D / total))) \<rparr>)"
  have raw: "(\<forall>s\<in>set raw. mn \<le> sectionDuration s \<and> sectionDuration s \<le> mx) \<and> raw \<noteq> []"
    using sectionLoop_sections [OF mn(2,3,4), of "[]" _ target "[]" 0 "splitIntoSentences script"] sent
    by (simp add: raw_def rawSections_def Let_def)
  have pos: "0 < total"
  proof -
    have sp: "0 < sum_list (map sectionDuration xs)" if "xs \<noteq> []" "\<forall>s\<in>set xs. mn \<le> sectionDuration s" for xs
      using that mn(1)
    proof (induction xs)
      case Nil
      then show ?case by simp
    next
      case (Cons a xs)
      have "0 < sectionDuration a" using Cons.prems mn(1) by auto
      moreover have "0 \<le> sum_list (map sectionDuration xs)"
        using Cons by (cases xs) (auto simp: less_imp_le)
      ultimately show ?case by simp
    qed
    show ?thesis using raw sp [of raw] by (simp add: total_def totalCalculatedDuration_sum)
  qed
  have res: "splitScriptWithDurations script D target mn mx = Some (map fin raw)"
    using pos by (simp add: splitScriptWithDurations_def Let_def raw_def [symmetric] total_def [symmetric] fin_def)
  have rng: "\<forall>s\<in>set (map fin raw). mn \<le> sectionDuration s \<and> sectionDuration s \<le> mx"
  proof -
    have "mn \<le> sectionDuration (fin s) \<and> sectionDuration (fin s) \<le> mx" for s
    proof -
      have "mn \<le> clampDuration mn mx (sectionDuration s * (D / total))"
           "clampDuration mn mx (sectionDuration s * (D / total)) \<le> mx"
        using mn(2) clampDuration_range by simp_all
      from round1_range [OF this mn(3,4)] show ?thesis by (simp add: fin_def)
    qed
    then show ?thesis by simp
  qed
  have sm: "\<bar>sum_list (map sectionDuration (map fin raw)) - D\<bar> \<le> of_nat (length (map fin raw)) / 20"
    if nc: "\<forall>r\<in>set raw. mn \<le> sectionDuration r * (D / total) \<and> sectionDuration r * (D / total) \<le> mx"
  proof -
    have err: "\<bar>sum_list (map sectionDuration (map fin xs)) - sum_list (map (\<lambda>r. sectionDuration r * (D / total)) xs)\<bar>
          \<le> of_nat (length xs) / 20"
      if "\<forall>r\<in>set xs. mn \<le> sectionDuration r * (D / total) \<and> sectionDuration r * (D / total) \<le> mx" for xs
      using that
    proof (induction xs)
      case Nil
      then show ?case by simp
    next
      case (Cons a xs)
      have a: "sectionDuration (fin a) = round1 (sectionDuration a * (D / total))"
        using Cons.prems by (simp add: fin_def clampDuration_id)
      have "\<bar>round1 (sectionDuration a * (D / total)) - sectionDuration a * (D / total)\<bar> \<le> 1 / 20"
        by (rule round1_error)
      moreover have "\<bar>sum_list (map sectionDuration (map fin xs)) - sum_list (map (\<lambda>r. sectionDuration r * (D / total)) xs)\<bar>
          \<le> of_nat (length xs) / 20"
        using Cons by simp
      ultimately show ?case
        unfolding list.map sum_list.Cons a length_Cons of_nat_Suc by (rule abs_step)
    qed
    have "sum_list (map (\<lambda>r. sectionDuration r * (D / total)) raw) = sum_list (map sectionDuration raw) * (D / total)"
      by (rule sum_list_mult_const)
    also have "\<dots> = D"
      using pos by (simp add: total_def totalCalculatedDuration_sum)
    finally show ?thesis
      using err [OF nc] by simp
  qed
  show ?thesis
    using res rng sm raw by (auto simp: raw_def [symmetric] total_def [symmetric])
qed

theorem splitScriptWithDurations_range_witness:
  "splitIntoSentences scriptABC \<noteq> [] \<and>
   (\<exists>secs. splitScriptWithDurations scriptABC 12 2 4 10 = Some secs \<and> secs \<noteq> [] \<and>
      (\<forall>s\<in>set secs. 4 \<le> sectionDuration s \<and> sectionDuration s \<le> 10) \<and>
      \<bar>sum_list (map sectionDuration secs) - 12\<bar> \<le> of_nat (length secs) / 20)"
proof -
  have sent: "splitIntoSentences scriptABC \<noteq> []"
    by code_simp
  have lim: "(0::rat) < 4" "(4::rat) \<le> 10" "(4::rat) * 10 \<in> \<int>" "(10::rat) * 10 \<in> \<int>"
    by simp_all
  have noclamp: "\<forall>r\<in>set (rawSections scriptABC 12 2 4 10).
      4 \<le> sectionDuration r * (12 / totalCalculatedDuration (rawSections scriptABC 12 2 4 10)) \<and>
      sectionDuration r * (12 / totalCalculatedDuration (rawSections scriptABC 12 2 4 10)) \<le> 10"
    by code_simp
  show ?thesis
    using splitScriptWithDurations_range [OF sent lim, of 12 2] noclamp sent
    by blast
qed

subsection \<open>Clip orchestrator\<close>







lemma checkClip_settled:
  "status clip = Completed \<or> status clip = Failed \<Longrightarrow>
   checkedClip (checkClip ext i clip) = clip \<and> made (checkClip ext i clip) = []"
  by (auto simp: checkClip_def)

lemma checkClip_calls: "c \<in> set (made (checkClip ext i clip)) \<Longrightarrow> callIndex c = i"
  by (auto simp: checkClip_def split: option.splits if_splits)

lemma checkClip_pending:
  "counted (checkClip ext i clip) = CountedPending \<longleftrightarrow>
   (status (checkedClip (checkClip ext i clip)) = Pending \<or>
    status (checkedClip (checkClip ext i clip)) = Processing) \<and>
   truthy (jobId (checkedClip (checkClip ext i clip)))"
  by (cases "status clip") (auto simp: checkClip_def truthy_def split: option.splits)

lemma checkLoop_unfold:
  "checkLoop ext i clips st =
     \<lparr> updatedClips = updatedClips st @ map (\<lambda>(k, c). checkedClip (checkClip ext k c)) (enumerate i clips),
       pendingCount = pendingCount st +
         length (filter (\<lambda>(k, c). counted (checkClip ext k c) = CountedPending) (enumerate i clips)),
       completedCount = completedCount st +
         length (filter (\<lambda>(k, c). counted (checkClip ext k c) = CountedCompleted) (enumerate i clips)),
       failedCount = failedCount st +
         length (filter (\<lambda>(k, c). counted (checkClip ext k c) = CountedFailed) (enumerate i clips)),
       calls = calls st @ concat (map (\<lambda>(k, c). made (checkClip ext k c)) (enumerate i clips)) \<rparr>"
proof (induction clips arbitrary: i st)
  case Nil
  then show ?case by simp
next
  case (Cons clip rest)
  show ?case
    unfolding checkLoop.simps Cons.IH by (simp add: tally_def)
qed

text \<open>
  C6 as stated fails in its second half: a clip that is \<open>Pending\<close> and has no job id is
  counted as failed and left as it is, so \<open>allCompleted\<close> is true while the returned array
  still holds a \<open>Pending\<close> clip.
\<close>

theorem checkAndDownloadClips_counterexample:
  "allCompleted (checkAndDownloadClips exampleServices [exampleClip 0 8] (lit ''job'')) \<and>
   map status (polledClips (checkAndDownloadClips exampleServices [exampleClip 0 8] (lit ''job'')))
     = [Pending]"
  by (simp add: checkAndDownloadClips_def checkClip_def tally_def exampleClip_def)

text \<open>
  C6, amended. \<open>checkAndDownloadClips\<close> returns an array of the same length; a clip that
  is already \<open>Completed\<close> or \<open>Failed\<close> is returned unchanged and no service call (status
  query, download, save) is made for it. \<open>allCompleted\<close> is true exactly when no clip of
  the returned array that has a job id is \<open>Pending\<close> or \<open>Processing\<close>: a clip without a
  job id is counted as failed and does not keep the poll open, whatever its status.
\<close>

theorem checkAndDownloadClips_settled:
  "length (polledClips (checkAndDownloadClips ext clips job)) = length clips \<and>
   (\<forall>i<length clips. status (clips ! i) = Completed \<or> status (clips ! i) = Failed \<longrightarrow>
      polledClips (checkAndDownloadClips ext clips job) ! i = clips ! i \<and>
      (\<forall>c\<in>set (serviceCalls (checkAndDownloadClips ext clips job)). callIndex c \<noteq> i)) \<and>
   (allCompleted (checkAndDownloadClips ext clips job) \<longleftrightarrow>
      (\<forall>c\<in>set (polledClips (checkAndDownloadClips ext clips job)).
         (status c = Pending \<or> status c = Processing) \<longrightarrow> \<not> truthy (jobId c)))"
proof -
  define res where "res = checkAndDownloadClips ext clips job"
  have pc: "polledClips res = map (\<lambda>(k, c). checkedClip (checkClip ext k c)) (enumerate 0 clips)"
    and sc: "serviceCalls res = concat (map (\<lambda>(k, c). made (checkClip ext k c)) (enumerate 0 clips))"
    and ac: "allCompleted res \<longleftrightarrow>
       filter (\<lambda>(k, c). counted (checkClip ext k c) = CountedPending) (enumerate 0 clips) = []"
    by (simp_all add: res_def checkAndDownloadClips_def checkLoop_unfold Let_def)
  have len: "length (polledClips res) = length clips"
    by (simp add: pc)
  have nth: "polledClips res ! i = checkedClip (checkClip ext i (clips ! i))" if "i < length clips" for i
    using that by (simp add: pc nth_enumerate_eq)
  have frame: "polledClips res ! i = clips ! i \<and> (\<forall>c\<in>set (serviceCalls res). callIndex c \<noteq> i)"
    if i: "i < length clips" and s: "status (clips ! i) = Completed \<or> status (clips ! i) = Failed" for i
  proof -
    have "callIndex c \<noteq> i" if c: "c \<in> set (serviceCalls res)" for c
    proof
      assume ci: "callIndex c = i"
      from c obtain k cl where kc: "(k, cl) \<in> set (enumerate 0 clips)" and m: "c \<in> set (made (checkClip ext k cl))"
        by (auto simp: sc)
      from kc have k: "k < length clips" "cl = clips ! k"
        by (auto simp: in_set_enumerate_eq)
      from checkClip_calls [OF m] ci have "k = i" by simp
      with m k checkClip_settled [OF s, of ext i] show False by simp
    qed
    then show ?thesis
      using nth [OF i] checkClip_settled [OF s, of ext i] by simp
  qed
  have settled: "allCompleted res \<longleftrightarrow>
      (\<forall>c\<in>set (polledClips res). (status c = Pending \<or> status c = Processing) \<longrightarrow> \<not> truthy (jobId c))"
    unfolding ac pc filter_empty_conv
    by (auto simp: checkClip_pending)
  show ?thesis
    using len frame settled unfolding res_def by blast
qed

theorem checkAndDownloadClips_settled_witness:
  "(0::nat) < length [exampleClip 0 8 \<lparr> status := Completed \<rparr>, exampleClip 1 8] \<and>
   status ([exampleClip 0 8 \<lparr> status := Completed \<rparr>, exampleClip 1 8] ! 0) = Completed \<and>
   polledClips (checkAndDownloadClips exampleServices
      [exampleClip 0 8 \<lparr> status := Completed \<rparr>, exampleClip 1 8] (lit ''job'')) ! 0
     = exampleClip 0 8 \<lparr> status := Completed \<rparr>"
  using checkAndDownloadClips_settled
    [of exampleServices "[exampleClip 0 8 \<lparr> status := Completed \<rparr>, exampleClip 1 8]" "lit ''job''"]
  by simp

subsection \<open>Merger\<close>

lemma completedClips_empty:
  "\<forall>c\<in>set clips. status c \<noteq> Completed \<Longrightarrow> completedClips clips = []"
  by (simp add: completedClips_def filter_empty_conv)

text \<open>
  C4. For every clip array in which no clip is \<open>Completed\<close>, \<open>mergeClipsIntoVideo\<close> ends
  with the error that there is no completed clip to merge, whatever the environment and
  the narration; it returns no output. The two mergers of ffmpeg.ts refuse an empty list
  of videos in the same way, and the timeline composer ends with an error for a scene
  list without a completed or adjusted scene.
\<close>

theorem merge_without_completed_clip:
  "((\<forall>c\<in>set clips. status c \<noteq> Completed) \<longrightarrow>
      mergeClipsIntoVideo w m clips outputPath narration = Inl NoCompletedClips) \<and>
   mergeVideosWithAudioSync w m [] audioFile outputPath = Inl NoVideos \<and>
   mergeVideos w [] outputPath narration = Inl NoVideos \<and>
   ((\<forall>s\<in>set scenes. videoStatus s \<noteq> SceneCompleted \<and> videoStatus s \<noteq> SceneAdjusted) \<longrightarrow>
      (\<exists>e. compose w m job preset scenes = Inl e))"
proof -
  have "\<exists>e. compose w m job preset scenes = Inl e"
    if "\<forall>s\<in>set scenes. videoStatus s \<noteq> SceneCompleted \<and> videoStatus s \<noteq> SceneAdjusted"
  proof -
    have "validScenes scenes = []"
      using that by (auto simp: validScenes_def filter_empty_conv)
    then show ?thesis by (simp add: compose_def)
  qed
  then show ?thesis
    by (simp add: mergeClipsIntoVideo_def completedClips_empty mergeVideosWithAudioSync_def
        mergeVideos_def)
qed

theorem merge_without_completed_clip_witness:
  "map status [exampleClip 0 8 \<lparr> status := Failed \<rparr>, exampleClip 1 8] = [Failed, Pending] \<and>
   mergeClipsIntoVideo exampleWorld mergeMedia
     [exampleClip 0 8 \<lparr> status := Failed \<rparr>, exampleClip 1 8] (lit ''/out/final.mp4'')
     (Some (lit ''/n.mp3'')) = Inl NoCompletedClips \<and>
   map videoStatus [waitingScene] = [SceneGenerating] \<and>
   compose exampleWorld mergeMedia (lit ''job'') Fade [waitingScene] = Inl NoValidScenes"
proof -
  have s: "map status [exampleClip 0 8 \<lparr> status := Failed \<rparr>, exampleClip 1 8] = [Failed, Pending]"
    by (simp add: exampleClip_def)
  then have c: "\<forall>c\<in>set [exampleClip 0 8 \<lparr> status := Failed \<rparr>, exampleClip 1 8]. status c \<noteq> Completed"
    by simp
  have v: "map videoStatus [waitingScene] = [SceneGenerating]"
    by (simp add: waitingScene_def dubbedScene_def)
  then have n: "\<forall>s\<in>set [waitingScene].
      videoStatus s \<noteq> SceneCompleted \<and> videoStatus s \<noteq> SceneAdjusted"
    by simp
  have k: "succeeds exampleWorld (Mkdir (composerDir exampleWorld (lit ''job'')))"
    by (simp add: exampleWorld_def)
  note T = merge_without_completed_clip
    [where clips = "[exampleClip 0 8 \<lparr> status := Failed \<rparr>, exampleClip 1 8]"
       and w = exampleWorld and m = mergeMedia and outputPath = "lit ''/out/final.mp4''"
       and narration = "Some (lit ''/n.mp3'')" and scenes = "[waitingScene]"
       and job = "lit ''job''" and preset = Fade]
  from T c have a: "mergeClipsIntoVideo exampleWorld mergeMedia
     [exampleClip 0 8 \<lparr> status := Failed \<rparr>, exampleClip 1 8] (lit ''/out/final.mp4'')
     (Some (lit ''/n.mp3'')) = Inl NoCompletedClips"
    by blast
  from T n obtain e where e: "compose exampleWorld mergeMedia (lit ''job'') Fade [waitingScene] = Inl e"
    by blast
  have "e = NoValidScenes"
    using e k v by (simp add: compose_def validScenes_def)
  with s a v e show ?thesis
    by blast
qed










lemma totalVideoDuration_sum:
  "foldl (\<lambda>total p. total + getVideoDuration w m p) a ps = a + sum_list (map (getVideoDuration w m) ps)"
  by (induction ps arbitrary: a) (simp_all add: add.assoc)

lemma createFiller_succeeds:
  "succeeds w FfmpegVersion \<Longrightarrow> succeeds w (FillerPipe src out d) \<Longrightarrow>
   createFillerFromLastFrame w src out d = Inr ()"
  by (simp add: createFillerFromLastFrame_def checkFFmpegInstalled_def)



text \<open>
  C10. When \<^verbatim>\<open>ffprobe\<close> fails, \<open>getAudioDuration\<close> is 60 and \<open>getVideoDuration\<close> is 0;
  neither raises. A merge whose narration cannot be measured is not failed by that: it
  succeeds whenever the other external commands do, limits the output to 60 seconds and
  computes the filler against 60 seconds, with 0 for every clip that cannot be measured.
\<close>

theorem probe_failure_defaults:
  "(ffprobe w m p = None \<longrightarrow> getAudioDuration w m p = 60 \<and> getVideoDuration w m p = 0) \<and>
   (videoPaths \<noteq> [] \<and> ffprobe w m narration = None \<longrightarrow>
      ((\<forall>c. (\<forall>q. c \<noteq> Ffprobe q) \<longrightarrow> succeeds w c) \<longrightarrow>
         (\<exists>run. mergeVideosWithAudioSync w m videoPaths narration outputPath = Inr run)) \<and>
      (\<forall>run. mergeVideosWithAudioSync w m videoPaths narration outputPath = Inr run \<longrightarrow>
         concatLimit run = 60 \<and>
         (if sum_list (map (\<lambda>q. case ffprobe w m q of Some d \<Rightarrow> d | None \<Rightarrow> 0) videoPaths) < 60 - 1 / 2
          then \<exists>fillerPath. fillerRequest run =
                 Some (last videoPaths, fillerPath,
                       60 - sum_list (map (\<lambda>q. case ffprobe w m q of Some d \<Rightarrow> d | None \<Rightarrow> 0) videoPaths) + 1)
          else fillerRequest run = None)))"
proof -
  have d: "ffprobe w m p = None \<longrightarrow> getAudioDuration w m p = 60 \<and> getVideoDuration w m p = 0"
    by (simp add: getAudioDuration_def getVideoDuration_def)
  have v: "sum_list (map (\<lambda>q. case ffprobe w m q of Some d \<Rightarrow> d | None \<Rightarrow> 0) videoPaths) =
           sum_list (map (getVideoDuration w m) videoPaths)"
    by (simp add: getVideoDuration_def [abs_def])
  have rest: "((\<forall>c. (\<forall>q. c \<noteq> Ffprobe q) \<longrightarrow> succeeds w c) \<longrightarrow>
         (\<exists>run. mergeVideosWithAudioSync w m videoPaths narration outputPath = Inr run)) \<and>
      (\<forall>run. mergeVideosWithAudioSync w m videoPaths narration outputPath = Inr run \<longrightarrow>
         concatLimit run = 60 \<and>
         (if sum_list (map (getVideoDuration w m) videoPaths) < 60 - 1 / 2
          then \<exists>fillerPath. fillerRequest run =
                 Some (last videoPaths, fillerPath, 60 - sum_list (map (getVideoDuration w m) videoPaths) + 1)
          else fillerRequest run = None))"
    if ne: "videoPaths \<noteq> []" and np: "ffprobe w m narration = None"
  proof -
    have A: "getAudioDuration w m narration = 60"
      using np by (simp add: getAudioDuration_def)
    have l: "length videoPaths \<noteq> 0" using ne by simp
    have ok: "\<exists>run. mergeVideosWithAudioSync w m videoPaths narration outputPath = Inr run"
      if "\<forall>c. (\<forall>q. c \<noteq> Ffprobe q) \<longrightarrow> succeeds w c"
      using that l
      by (simp add: mergeVideosWithAudioSync_def Let_def A totalVideoDuration_sum
          createFiller_succeeds checkFFmpegInstalled_def)
    have sh: "concatLimit run = 60 \<and>
         (if sum_list (map (getVideoDuration w m) videoPaths) < 60 - 1 / 2
          then \<exists>fillerPath. fillerRequest run =
                 Some (last videoPaths, fillerPath, 60 - sum_list (map (getVideoDuration w m) videoPaths) + 1)
          else fillerRequest run = None)"
      if "mergeVideosWithAudioSync w m videoPaths narration outputPath = Inr run" for run
      using that l
      by (auto simp: mergeVideosWithAudioSync_def Let_def A totalVideoDuration_sum
          split: if_splits sum.splits)
    show ?thesis using ok sh by blast
  qed
  show ?thesis
    unfolding v using d rest by blast
qed

theorem probe_failure_defaults_witness:
  "examplePaths \<noteq> [] \<and>
   ffprobe noProbeWorld mergeMedia (lit ''/n.mp3'') = None \<and>
   getAudioDuration noProbeWorld mergeMedia (lit ''/n.mp3'') = 60 \<and>
   getVideoDuration noProbeWorld mergeMedia (lit ''/n.mp3'') = 0 \<and>
   (\<exists>run. mergeVideosWithAudioSync noProbeWorld mergeMedia examplePaths (lit ''/n.mp3'')
             (lit ''/out/final.mp4'') = Inr run \<and>
      concatLimit run = 60 \<and>
      (\<exists>fillerPath. fillerRequest run = Some (lit ''/c3.mp4'', fillerPath, 61)))"
proof -
  have ne: "examplePaths \<noteq> []"
    by (simp add: examplePaths_def)
  have n: "ffprobe noProbeWorld mergeMedia q = None" for q
    by (simp add: ffprobe_def noProbeWorld_def)
  have v: "sum_list (map (\<lambda>q. case ffprobe noProbeWorld mergeMedia q of Some d \<Rightarrow> d | None \<Rightarrow> 0)
             examplePaths) = 0"
    by (simp add: n examplePaths_def)
  have ok: "\<forall>c. (\<forall>q. c \<noteq> Ffprobe q) \<longrightarrow> succeeds noProbeWorld c"
    by (auto simp: noProbeWorld_def exampleWorld_def split: Command.splits)
  have l: "last examplePaths = lit ''/c3.mp4''"
    by (simp add: examplePaths_def)
  have nn: "ffprobe noProbeWorld mergeMedia (lit ''/n.mp3'') = None"
    by (rule n)
  note t = probe_failure_defaults
    [of noProbeWorld mergeMedia "lit ''/n.mp3''" examplePaths "lit ''/n.mp3''" "lit ''/out/final.mp4''"]
  from t nn have d: "getAudioDuration noProbeWorld mergeMedia (lit ''/n.mp3'') = 60"
    "getVideoDuration noProbeWorld mergeMedia (lit ''/n.mp3'') = 0"
    by blast+
  from t ne nn ok obtain run where
    r: "mergeVideosWithAudioSync noProbeWorld mergeMedia examplePaths (lit ''/n.mp3'')
          (lit ''/out/final.mp4'') = Inr run"
    by blast
  from t ne nn r have
    "concatLimit run = 60 \<and>
     (if sum_list (map (\<lambda>q. case ffprobe noProbeWorld mergeMedia q of Some d \<Rightarrow> d | None \<Rightarrow> 0)
            examplePaths) < 60 - 1 / 2
      then \<exists>fillerPath. fillerRequest run =
             Some (last examplePaths, fillerPath,
                   60 - sum_list (map (\<lambda>q. case ffprobe noProbeWorld mergeMedia q of Some d \<Rightarrow> d | None \<Rightarrow> 0)
                          examplePaths) + 1)
      else fillerRequest run = None)"
    by blast
  then have "concatLimit run = 60 \<and>
     (\<exists>fillerPath. fillerRequest run = Some (lit ''/c3.mp4'', fillerPath, 61))"
    unfolding v l by simp
  with ne nn d r show ?thesis
    by blast
qed

subsection \<open>Duration adjuster\<close>













end
